theory Spec2Isabelle
  imports Complex_Main
begin

section \<open>Python values, exceptions and dataset-like collections\<close>

text \<open>
  The development embeds \<^verbatim>\<open>tango/integrations/flax/data.py\<close> (the batch source
  \<^verbatim>\<open>FlaxDataLoader\<close>) and \<^verbatim>\<open>tango/integrations/flax/eval.py\<close> (the evaluation
  step \<^verbatim>\<open>FlaxEvalStep.run\<close>).

  Exceptions are values: the exception classes the two files raise or provoke, \<open>Raised\<close>
  for an arbitrary exception thrown by a collaborator (a callback hook or the evaluation
  function), and \<open>UnsupportedSizeError\<close> for the error type the specification names for
  unsized sources.
\<close>

datatype error =
    ConfigurationError
  | KeyError
  | AttributeError
  | TypeError
  | ZeroDivisionError
  | ValueError
  | IndexError
  | NameError
  | UnsupportedSizeError
  | Raised string

text \<open>A size as Python holds it: \<^verbatim>\<open>None\<close> or a non-negative integer.\<close>

datatype pyval = PyNone | PyInt nat

text \<open>
  What \<^verbatim>\<open>FlaxDataLoader\<close> can be handed as its dataset:
  \<^item> \<open>DictData r\<close>: a plain \<^verbatim>\<open>dict\<close>, where \<open>r\<close> is the entry stored under the key
    \<^verbatim>\<open>"num_rows"\<close> (\<open>None\<close> when the key is missing);
  \<^item> \<open>HFDataset n\<close>: a \<^verbatim>\<open>datasets.Dataset\<close> of \<open>n\<close> rows;
  \<^item> \<open>OtherObject r\<close>: any other object (a streaming dataset, for instance), where \<open>r\<close> is
    its \<^verbatim>\<open>num_rows\<close> attribute (\<open>None\<close> when it has no such attribute).
\<close>

datatype dataset =
    DictData "pyval option"
  | HFDataset nat
  | OtherObject "pyval option"

text \<open>
  A batch is represented by the group of row indices it gathers; the contents of the rows
  and the layout of the arrays (the conversion with \<^verbatim>\<open>jnp.array\<close>, the regrouping of the
  rows per device by \<^verbatim>\<open>shard\<close>) are not represented.
\<close>

type_synonym batch = "nat list"

text \<open>
  A Python generator, run to its end: the items it yields, and the exception that ends it
  if it does not return normally.
\<close>

type_synonym 'a generator = "'a list \<times> error option"

section \<open>The batch source: \<^verbatim>\<open>FlaxDataLoader\<close>\<close>

record FlaxDataLoader =
  dataset :: dataset
  batch_size :: nat
  drop_last :: bool
  shuffle :: bool
  dataset_size :: pyval

text \<open>
  \<^verbatim>\<open>_get_size\<close>: \<^verbatim>\<open>self.dataset["num_rows"] if type(self.dataset) is dict else self.dataset.num_rows\<close>.
  A missing key raises \<^verbatim>\<open>KeyError\<close>, a missing attribute \<^verbatim>\<open>AttributeError\<close>.
\<close>

fun get_size :: "dataset \<Rightarrow> error + pyval" where
  "get_size (DictData r) = (case r of None \<Rightarrow> Inl KeyError | Some v \<Rightarrow> Inr v)"
| "get_size (HFDataset n) = Inr (PyInt n)"
| "get_size (OtherObject r) = (case r of None \<Rightarrow> Inl AttributeError | Some v \<Rightarrow> Inr v)"

text \<open>\<^verbatim>\<open>__init__\<close>: stores its arguments and the result of \<^verbatim>\<open>_get_size\<close>.\<close>

definition FlaxDataLoader_init ::
  "dataset \<Rightarrow> nat \<Rightarrow> bool \<Rightarrow> bool \<Rightarrow> error + FlaxDataLoader" where
  "FlaxDataLoader_init ds bsz dlast shuf =
     (case get_size ds of
        Inl e \<Rightarrow> Inl e
      | Inr sz \<Rightarrow> Inr \<lparr>dataset = ds, batch_size = bsz, drop_last = dlast,
                      shuffle = shuf, dataset_size = sz\<rparr>)"

text \<open>
  \<^verbatim>\<open>perms.reshape((rows, cols))\<close> on a JAX array: the array is cut into \<open>rows\<close>
  consecutive groups of \<open>cols\<close> elements; for a size that does not fit, JAX raises
  \<^verbatim>\<open>TypeError\<close>.
\<close>

definition reshape :: "nat list \<Rightarrow> nat \<Rightarrow> nat \<Rightarrow> error + nat list list" where
  "reshape xs rows cols =
     (if length xs = rows * cols
      then Inr (map (\<lambda>i. take cols (drop (i * cols) xs)) [0..<rows])
      else Inl TypeError)"

text \<open>
  \<^verbatim>\<open>self.dataset[perm]\<close>, where \<open>perm\<close> is a JAX array of row indices. A plain dict
  hashes its key, and a JAX array is unhashable: \<^verbatim>\<open>TypeError\<close>. A \<^verbatim>\<open>datasets.Dataset\<close>
  returns the rows, and raises \<^verbatim>\<open>IndexError\<close> for an index beyond its rows. (The
  loop does not index any other object; one that is not subscriptable would raise
  \<^verbatim>\<open>TypeError\<close>.)
\<close>

fun gather :: "dataset \<Rightarrow> nat list \<Rightarrow> error + batch" where
  "gather (DictData r) perm = Inl TypeError"
| "gather (HFDataset n) perm = (if list_all (\<lambda>i. i < n) perm then Inr perm else Inl IndexError)"
| "gather (OtherObject r) perm = Inl TypeError"

text \<open>
  \<^verbatim>\<open>shard(batch)\<close> reshapes the leading dimension of every array to
  \<^verbatim>\<open>(jax.local_device_count(), -1)\<close>: the rows stay the same, and the reshape raises
  \<^verbatim>\<open>TypeError\<close> when the batch size is not a multiple of the device count.
\<close>

definition shard :: "nat \<Rightarrow> batch \<Rightarrow> error + batch" where
  "shard local_device_count b =
     (if length b mod local_device_count = 0 then Inr b else Inl TypeError)"

text \<open>
  The loop \<^verbatim>\<open>for perm in perms\<close> of \<^verbatim>\<open>__call__\<close>: a dict or a \<^verbatim>\<open>datasets.Dataset\<close> is
  indexed by the group and, if \<^verbatim>\<open>do_distributed\<close>, sharded; anything else raises
  \<^verbatim>\<open>ValueError\<close>. An exception ends the generator after the batches already yielded.
\<close>

fun is_dict_or_Dataset :: "dataset \<Rightarrow> bool" where
  "is_dict_or_Dataset (DictData r) = True"
| "is_dict_or_Dataset (HFDataset n) = True"
| "is_dict_or_Dataset (OtherObject r) = False"

fun yield_batches :: "nat \<Rightarrow> dataset \<Rightarrow> bool \<Rightarrow> nat list list \<Rightarrow> batch generator" where
  "yield_batches local_device_count ds do_distributed [] = ([], None)"
| "yield_batches local_device_count ds do_distributed (perm # perms) =
     (if is_dict_or_Dataset ds
      then (case gather ds perm of
              Inl e \<Rightarrow> ([], Some e)
            | Inr b \<Rightarrow>
              (case (if do_distributed then shard local_device_count b else Inr b) of
                 Inl e \<Rightarrow> ([], Some e)
               | Inr b' \<Rightarrow>
                 (case yield_batches local_device_count ds do_distributed perms of
                    (bs, e) \<Rightarrow> (b' # bs, e))))
      else ([], Some ValueError))"

text \<open>
  \<^verbatim>\<open>__call__(rng, do_distributed)\<close>. The pseudo-random permutation
  \<^verbatim>\<open>jax.random.permutation\<close> and the number of local devices are parameters
  (\<open>permutation\<close>, \<open>local_device_count\<close>). The source computes
  \<^verbatim>\<open>steps_per_epoch = self.dataset_size // self.batch_size\<close> and overwrites it with
  \<^verbatim>\<open>steps_per_epoch = 1\<close> on the next line; the model keeps both assignments. The floor
  division raises \<^verbatim>\<open>TypeError\<close> on a size that is \<^verbatim>\<open>None\<close> and \<^verbatim>\<open>ZeroDivisionError\<close> on a
  batch size of zero.
\<close>

definition FlaxDataLoader_call ::
  "('k \<Rightarrow> nat \<Rightarrow> nat list) \<Rightarrow> nat \<Rightarrow> FlaxDataLoader \<Rightarrow> 'k \<Rightarrow> bool \<Rightarrow> batch generator" where
  "FlaxDataLoader_call permutation local_device_count self rng do_distributed =
     (case dataset_size self of
        PyNone \<Rightarrow> ([], Some TypeError)
      | PyInt sz \<Rightarrow>
          if batch_size self = 0 then ([], Some ZeroDivisionError)
          else
            let steps_per_epoch = sz div batch_size self;
                steps_per_epoch = 1;
                perms = (if shuffle self then permutation rng sz else [0..<sz]);
                perms = take (steps_per_epoch * batch_size self) perms
            in (case reshape perms steps_per_epoch (batch_size self) of
                  Inl e \<Rightarrow> ([], Some e)
                | Inr rows \<Rightarrow>
                    yield_batches local_device_count (dataset self) do_distributed rows))"

text \<open>
  Constructing a loader on a dataset and iterating it once: the composition the
  evaluation step performs.
\<close>

definition iterate ::
  "('k \<Rightarrow> nat \<Rightarrow> nat list) \<Rightarrow> nat \<Rightarrow> dataset \<Rightarrow> nat \<Rightarrow> bool \<Rightarrow> bool \<Rightarrow> 'k \<Rightarrow> bool
     \<Rightarrow> error + batch generator" where
  "iterate permutation local_device_count ds bsz dlast shuf rng do_distributed =
     (case FlaxDataLoader_init ds bsz dlast shuf of
        Inl e \<Rightarrow> Inl e
      | Inr loader \<Rightarrow>
          Inr (FlaxDataLoader_call permutation local_device_count loader rng do_distributed))"

section \<open>The evaluation step: \<^verbatim>\<open>FlaxEvalStep.run\<close>\<close>

text \<open>
  The model and the training state are external objects; the step only touches their
  \<^verbatim>\<open>params\<close> attribute. Metric values are floating-point numbers: their type \<open>'f\<close> and
  the arithmetic on them (\<open>float_arith\<close> below) are parameters, so that nothing is assumed
  about rounding, overflow or NaN. The per-step metrics returned by the evaluation
  function are the items of a dict, in iteration order; the running sums and the
  aggregate are dicts, modelled as maps.
\<close>

record 'p TrainState =
  params :: 'p

record 'p Model =
  model_params :: 'p

type_synonym 'f metrics = "(string \<times> 'f) list"

type_synonym 'f aggregate = "string \<rightharpoonup> 'f"

text \<open>
  The floating-point arithmetic the step uses: \<^verbatim>\<open>0.0\<close> (the default of
  \<^verbatim>\<open>defaultdict(float)\<close>), the addition of two floats, and the division of a float by a
  positive integer.
\<close>

record 'f float_arith =
  float_zero :: 'f
  float_add :: "'f \<Rightarrow> 'f \<Rightarrow> 'f"
  float_div :: "'f \<Rightarrow> nat \<Rightarrow> 'f"

text \<open>
  What the step does to the outside world, in order: the hooks it calls on each callback
  (identified by \<open>cb_id\<close>), the applications of the evaluation function, and the updates of
  the progress display (\<^verbatim>\<open>batch_iter.set_postfix\<close>).
\<close>

datatype 'l event =
    PreEvalLoop nat
  | PreBatch nat nat batch
  | EvalFn nat batch
  | PostBatch nat nat 'l
  | SetPostfix nat
  | PostEvalLoop nat

text \<open>
  A constructed \<^verbatim>\<open>EvalCallback\<close>: each hook either returns (\<open>None\<close>) or raises.
\<close>

record ('l, 'f) EvalCallback =
  cb_id :: nat
  pre_eval_loop :: "error option"
  pre_batch :: "nat \<Rightarrow> batch \<Rightarrow> error option"
  post_batch :: "nat \<Rightarrow> 'l \<Rightarrow> error option"
  post_eval_loop :: "'f aggregate \<Rightarrow> error option"

text \<open>
  \<^verbatim>\<open>FlaxEvalWrapper.eval_fn(state, batch, model)\<close>: returns logits and metrics or raises,
  and may modify the state object it is handed; the state after the call is part of its
  result.
\<close>

type_synonym ('p, 'l, 'f) eval_fn =
  "'p TrainState \<Rightarrow> batch \<Rightarrow> 'p Model \<Rightarrow> 'p TrainState \<times> (error + 'l \<times> 'f metrics)"

text \<open>
  The step budget.
  \<^verbatim>\<open>
  try:
      dataloader_len = dataloader.dataset_size
      steps = dataloader_len if eval_steps is None else min(dataloader_len, eval_steps)
  except TypeError:
      if eval_steps is None:
          raise ConfigurationError(...)
      else:
          steps = eval_steps
  \<close>
  Reading the attribute never raises; \<^verbatim>\<open>min\<close> raises \<^verbatim>\<open>TypeError\<close> when it compares
  \<^verbatim>\<open>None\<close> with an integer.
\<close>

fun py_min :: "pyval \<Rightarrow> nat \<Rightarrow> error + pyval" where
  "py_min PyNone k = Inl TypeError"
| "py_min (PyInt n) k = Inr (PyInt (min n k))"

definition try_steps :: "pyval \<Rightarrow> nat option \<Rightarrow> error + pyval" where
  "try_steps dataloader_len eval_steps =
     (case eval_steps of
        None \<Rightarrow> Inr dataloader_len
      | Some k \<Rightarrow> py_min dataloader_len k)"

definition resolve_steps :: "pyval \<Rightarrow> nat option \<Rightarrow> error + pyval" where
  "resolve_steps dataloader_len eval_steps =
     (case try_steps dataloader_len eval_steps of
        Inl TypeError \<Rightarrow>
          (case eval_steps of
             None \<Rightarrow> Inl ConfigurationError
           | Some k \<Rightarrow> Inr (PyInt k))
      | Inl e \<Rightarrow> Inl e
      | Inr steps \<Rightarrow> Inr steps)"

text \<open>
  \<^verbatim>\<open>if do_distributed: devices = jax.devices(); if len(devices) <= 1: raise ConfigurationError\<close>
\<close>

definition check_devices :: "bool \<Rightarrow> nat \<Rightarrow> error + unit" where
  "check_devices distributed n_devices =
     (if distributed then (if n_devices \<le> 1 then Inl ConfigurationError else Inr ())
      else Inr ())"

text \<open>
  \<^verbatim>\<open>for callback in callbacks: callback.hook(...)\<close>: each call is recorded; the first hook
  that raises ends the loop with its exception.
\<close>

fun call_hooks ::
  "('c \<Rightarrow> error option) \<Rightarrow> ('c \<Rightarrow> 'e) \<Rightarrow> 'c list \<Rightarrow> 'e list \<Rightarrow> 'e list \<times> error option" where
  "call_hooks hook ev [] tr = (tr, None)"
| "call_hooks hook ev (c # cs) tr =
     (case hook c of
        Some e \<Rightarrow> (tr @ [ev c], Some e)
      | None \<Rightarrow> call_hooks hook ev cs (tr @ [ev c]))"

text \<open>
  \<^verbatim>\<open>islice(generator, steps)\<close>: at most \<open>steps\<close> items are requested (all of them when
  \<open>steps\<close> is \<^verbatim>\<open>None\<close>); the generator's exception is met only if more items are requested
  than it yields.
\<close>

fun islice :: "'a generator \<Rightarrow> pyval \<Rightarrow> 'a generator" where
  "islice g PyNone = g"
| "islice (xs, e) (PyInt n) = (take n xs, if n \<le> length xs then None else e)"

text \<open>\<^verbatim>\<open>enumerate\<close> numbers the items from zero.\<close>

fun enumerate_gen :: "'a generator \<Rightarrow> (nat \<times> 'a) generator" where
  "enumerate_gen (xs, e) = (List.enumerate 0 xs, e)"

text \<open>
  \<^verbatim>\<open>should_log_this_step = step % log_every == 0 or step == steps - 1\<close>. The modulo
  raises on a zero \<^verbatim>\<open>log_every\<close>; the second operand is evaluated only when the first is
  false, and raises when \<^verbatim>\<open>steps\<close> is \<^verbatim>\<open>None\<close>.
\<close>

definition should_log_this_step :: "nat \<Rightarrow> nat \<Rightarrow> pyval \<Rightarrow> error + bool" where
  "should_log_this_step step every steps =
     (if every = 0 then Inl ZeroDivisionError
      else if step mod every = 0 then Inr True
      else (case steps of
              PyNone \<Rightarrow> Inl TypeError
            | PyInt n \<Rightarrow> Inr (int step = int n - 1)))"

text \<open>
  Dicts created with \<^verbatim>\<open>defaultdict(float)\<close>: reading a missing key gives \<^verbatim>\<open>0.0\<close>.
\<close>

definition get_default :: "'f float_arith \<Rightarrow> 'f aggregate \<Rightarrow> string \<Rightarrow> 'f" where
  "get_default fl m k = (case m k of None \<Rightarrow> float_zero fl | Some v \<Rightarrow> v)"

text \<open>
  \<^verbatim>\<open>
  for key, val in metrics.items():
      if key in metric_names:
          running_metrics[key] += metrics[key].item()
          aggregated_metrics[key] = running_metrics[key] / (step + 1)
  \<close>
  (\<^verbatim>\<open>metrics[key]\<close> is the item's own value \<^verbatim>\<open>val\<close>.)
\<close>

fun auto_aggregate ::
  "'f float_arith \<Rightarrow> string list \<Rightarrow> nat \<Rightarrow> 'f metrics \<Rightarrow> 'f aggregate \<times> 'f aggregate
     \<Rightarrow> 'f aggregate \<times> 'f aggregate" where
  "auto_aggregate fl names step [] ra = ra"
| "auto_aggregate fl names step ((key, val) # items) (running, aggregated) =
     (if key \<in> set names
      then
        let running' = running(key \<mapsto> float_add fl (get_default fl running key) val);
            aggregated' = aggregated(key \<mapsto> float_div fl (get_default fl running' key) (step + 1))
        in auto_aggregate fl names step items (running', aggregated')
      else auto_aggregate fl names step items (running, aggregated))"

text \<open>\<^verbatim>\<open>aggregated_metrics.update(metrics)\<close>\<close>

fun dict_update :: "'f aggregate \<Rightarrow> 'f metrics \<Rightarrow> 'f aggregate" where
  "dict_update m [] = m"
| "dict_update m ((key, val) # items) = dict_update (m(key \<mapsto> val)) items"

text \<open>The two branches of \<^verbatim>\<open>if auto_aggregate_metrics: ... else: ...\<close>.\<close>

definition update_metrics ::
  "'f float_arith \<Rightarrow> bool \<Rightarrow> string list \<Rightarrow> nat \<Rightarrow> 'f metrics \<Rightarrow> 'f aggregate \<times> 'f aggregate
     \<Rightarrow> 'f aggregate \<times> 'f aggregate" where
  "update_metrics fl auto names step ms ra =
     (if auto then auto_aggregate fl names step ms ra
      else (fst ra, dict_update (snd ra) ms))"

text \<open>The arguments of the lazily constructed data loader.\<close>

record LazyDataLoader =
  lazy_batch_size :: nat
  lazy_drop_last :: bool
  lazy_shuffle :: bool

text \<open>The arguments of \<^verbatim>\<open>run\<close>.\<close>

record ('p, 'l, 'f) run_args =
  model :: "'p Model"
  state :: "'p TrainState"
  dataset_dict :: "string \<rightharpoonup> dataset"
  dataloader :: LazyDataLoader
  eval_wrapper :: "('p, 'l, 'f) eval_fn"
  test_split :: string
  seed :: nat
  log_every :: nat
  do_distributed :: bool
  eval_steps :: "nat option"
  metric_names :: "string list"
  auto_aggregate_metrics :: bool
  callbacks :: "('l, 'f) EvalCallback list"

text \<open>
  What \<^verbatim>\<open>run\<close> and the loader ask of the JAX runtime: the number of devices
  (\<^verbatim>\<open>len(jax.devices())\<close>), the number of local devices (\<^verbatim>\<open>jax.local_device_count()\<close>,
  used by \<^verbatim>\<open>shard\<close>), the key derived from the seed (\<^verbatim>\<open>get_PRNGkey\<close>) and the
  pseudo-random permutation.
\<close>

record 'k jax_env =
  jax_devices :: nat
  jax_local_device_count :: nat
  jax_get_PRNGkey :: "nat \<Rightarrow> 'k"
  jax_permutation :: "'k \<Rightarrow> nat \<Rightarrow> nat list"

text \<open>The variables the loop of \<^verbatim>\<open>run\<close> changes.\<close>

record ('p, 'l, 'f) loop_state =
  cur_state :: "'p TrainState"
  running_metrics :: "'f aggregate"
  aggregated_metrics :: "'f aggregate"
  trace :: "'l event list"

text \<open>
  One iteration of \<^verbatim>\<open>for step, batch in batch_iter\<close>, for the model \<open>m\<close> (whose parameters
  have been set) and the resolved budget \<open>steps\<close>.
  \<^verbatim>\<open>
  if do_distributed:
      parallel_eval_step = jax.pmap(eval_step, axis_name="batch")
      logits, metrics = parallel_eval_step(state, batch)
      metrics = jax.lax.pmean(metrics, axis_name="batch")
  else:
      logits, metrics = eval_step(state, batch)
  \<close>
  In both branches the evaluation function is applied (under \<^verbatim>\<open>pmap\<close> in the first; the
  mapping over devices is not represented). In the distributed branch the metrics are
  then passed to \<^verbatim>\<open>jax.lax.pmean\<close> outside of the \<^verbatim>\<open>pmap\<close>, where the axis name
  \<^verbatim>\<open>"batch"\<close> is unbound: the call raises \<^verbatim>\<open>NameError\<close>, before \<^verbatim>\<open>post_batch\<close>, the
  aggregation and the progress display.
\<close>

definition eval_batch ::
  "'f float_arith \<Rightarrow> ('p, 'l, 'f) run_args \<Rightarrow> 'p Model \<Rightarrow> pyval \<Rightarrow> nat \<Rightarrow> batch
     \<Rightarrow> ('p, 'l, 'f) loop_state \<Rightarrow> ('p, 'l, 'f) loop_state \<times> error option" where
  "eval_batch fl args m steps step batch ls =
     (case should_log_this_step step (log_every args) steps of
        Inl e \<Rightarrow> (ls, Some e)
      | Inr should_log \<Rightarrow>
        (case call_hooks (\<lambda>c. pre_batch c step batch) (\<lambda>c. PreBatch (cb_id c) step batch)
                (callbacks args) (trace ls) of
           (tr1, Some e) \<Rightarrow> (ls\<lparr>trace := tr1\<rparr>, Some e)
         | (tr1, None) \<Rightarrow>
           (case eval_wrapper args (cur_state ls) batch m of
              (st', Inl e) \<Rightarrow>
                (ls\<lparr>cur_state := st', trace := tr1 @ [EvalFn step batch]\<rparr>, Some e)
            | (st', Inr (logits, ms)) \<Rightarrow>
              if do_distributed args
              then (ls\<lparr>cur_state := st', trace := tr1 @ [EvalFn step batch]\<rparr>,
                    Some NameError)
              else
              (case call_hooks (\<lambda>c. post_batch c step logits)
                      (\<lambda>c. PostBatch (cb_id c) step logits)
                      (callbacks args) (tr1 @ [EvalFn step batch]) of
                 (tr2, Some e) \<Rightarrow> (ls\<lparr>cur_state := st', trace := tr2\<rparr>, Some e)
               | (tr2, None) \<Rightarrow>
                 (case update_metrics fl (auto_aggregate_metrics args) (metric_names args)
                         step ms (running_metrics ls, aggregated_metrics ls) of
                    (running', aggregated') \<Rightarrow>
                      (\<lparr>cur_state = st', running_metrics = running',
                        aggregated_metrics = aggregated',
                        trace = (if should_log then tr2 @ [SetPostfix step] else tr2)\<rparr>,
                       None))))))"

text \<open>The loop over the batches already yielded: an exception ends it.\<close>

fun eval_loop ::
  "'f float_arith \<Rightarrow> ('p, 'l, 'f) run_args \<Rightarrow> 'p Model \<Rightarrow> pyval \<Rightarrow> (nat \<times> batch) list
     \<Rightarrow> ('p, 'l, 'f) loop_state \<Rightarrow> ('p, 'l, 'f) loop_state \<times> error option" where
  "eval_loop fl args m steps [] ls = (ls, None)"
| "eval_loop fl args m steps ((step, batch) # rest) ls =
     (case eval_batch fl args m steps step batch ls of
        (ls', Some e) \<Rightarrow> (ls', Some e)
      | (ls', None) \<Rightarrow> eval_loop fl args m steps rest ls')"

text \<open>
  The loop over the generator: once the yielded batches are used up, the exception that
  ended the generator (if any) is raised.
\<close>

fun eval_generator ::
  "'f float_arith \<Rightarrow> ('p, 'l, 'f) run_args \<Rightarrow> 'p Model \<Rightarrow> pyval \<Rightarrow> (nat \<times> batch) generator
     \<Rightarrow> ('p, 'l, 'f) loop_state \<Rightarrow> ('p, 'l, 'f) loop_state \<times> error option" where
  "eval_generator fl args m steps (items, err) ls =
     (case eval_loop fl args m steps items ls of
        (ls', Some e) \<Rightarrow> (ls', Some e)
      | (ls', None) \<Rightarrow> (ls', err))"

text \<open>
  What a call of \<^verbatim>\<open>run\<close> leaves behind: the value returned or the exception raised, the
  state object as it is afterwards, and the events in order.
\<close>

record ('p, 'l, 'f) outcome =
  result :: "error + 'f aggregate"
  final_state :: "'p TrainState"
  events :: "'l event list"

text \<open>
  The second half of \<^verbatim>\<open>run\<close>, from \<^verbatim>\<open>for callback in callbacks: callback.pre_eval_loop()\<close>
  to the \<^verbatim>\<open>return\<close>: for the constructed loader, the model with its parameters set and the
  resolved budget.
\<close>

definition run_loop ::
  "'k jax_env \<Rightarrow> 'f float_arith \<Rightarrow> ('p, 'l, 'f) run_args \<Rightarrow> FlaxDataLoader \<Rightarrow> 'p Model
     \<Rightarrow> pyval \<Rightarrow> ('p, 'l, 'f) outcome" where
  "run_loop env fl args loader m steps =
     (case call_hooks pre_eval_loop (\<lambda>c. PreEvalLoop (cb_id c)) (callbacks args) [] of
        (tr0, Some e) \<Rightarrow> \<lparr>result = Inl e, final_state = state args, events = tr0\<rparr>
      | (tr0, None) \<Rightarrow>
        let rng = jax_get_PRNGkey env (seed args);
            eval_batches =
              enumerate_gen
                (islice (FlaxDataLoader_call (jax_permutation env)
                           (jax_local_device_count env) loader rng
                           (do_distributed args)) steps)
        in (case eval_generator fl args m steps eval_batches
                   \<lparr>cur_state = state args, running_metrics = Map.empty,
                    aggregated_metrics = Map.empty, trace = tr0\<rparr> of
              (ls, Some e) \<Rightarrow>
                \<lparr>result = Inl e, final_state = cur_state ls, events = trace ls\<rparr>
            | (ls, None) \<Rightarrow>
              (case call_hooks (\<lambda>c. post_eval_loop c (aggregated_metrics ls))
                      (\<lambda>c. PostEvalLoop (cb_id c)) (callbacks args) (trace ls) of
                 (tr3, Some e) \<Rightarrow>
                   \<lparr>result = Inl e, final_state = cur_state ls, events = tr3\<rparr>
               | (tr3, None) \<Rightarrow>
                   \<lparr>result = Inr (aggregated_metrics ls),
                    final_state = cur_state ls, events = tr3\<rparr>)))"

text \<open>
  \<^verbatim>\<open>FlaxEvalStep.run\<close>: the loader is constructed on \<^verbatim>\<open>dataset[test_split]\<close>, the model's
  parameters are set from the state, the budget is resolved and the devices are checked;
  then the loop runs.
\<close>

definition run ::
  "'k jax_env \<Rightarrow> 'f float_arith \<Rightarrow> ('p, 'l, 'f) run_args \<Rightarrow> ('p, 'l, 'f) outcome" where
  "run env fl args =
     (case dataset_dict args (test_split args) of
        None \<Rightarrow> \<lparr>result = Inl KeyError, final_state = state args, events = []\<rparr>
      | Some ds \<Rightarrow>
        (case FlaxDataLoader_init ds (lazy_batch_size (dataloader args))
                (lazy_drop_last (dataloader args)) (lazy_shuffle (dataloader args)) of
           Inl e \<Rightarrow> \<lparr>result = Inl e, final_state = state args, events = []\<rparr>
         | Inr loader \<Rightarrow>
           let m = (model args)\<lparr>model_params := params (state args)\<rparr> in
           (case resolve_steps (dataset_size loader) (eval_steps args) of
              Inl e \<Rightarrow> \<lparr>result = Inl e, final_state = state args, events = []\<rparr>
            | Inr steps \<Rightarrow>
              (case check_devices (do_distributed args) (jax_devices env) of
                 Inl e \<Rightarrow> \<lparr>result = Inl e, final_state = state args, events = []\<rparr>
               | Inr _ \<Rightarrow> run_loop env fl args loader m steps))))"

section \<open>Scenarios\<close>

text \<open>The number of batches the evaluation function was applied to, read off a trace.\<close>

fun is_EvalFn :: "'l event \<Rightarrow> bool" where
  "is_EvalFn (EvalFn step b) = True"
| "is_EvalFn (PreEvalLoop c) = False"
| "is_EvalFn (PreBatch c step b) = False"
| "is_EvalFn (PostBatch c step lg) = False"
| "is_EvalFn (SetPostfix step) = False"
| "is_EvalFn (PostEvalLoop c) = False"

definition evaluated_batches :: "'l event list \<Rightarrow> nat" where
  "evaluated_batches tr = length (filter is_EvalFn tr)"

text \<open>
  The scenario of the specification: the split \<^verbatim>\<open>"test"\<close> holds the dataset \<open>ds\<close>, batch
  size 2, shuffle off, the step budget \<open>budget\<close>, auto-aggregation on with metric names
  \<^verbatim>\<open>("loss",)\<close>, the callbacks \<open>cbs\<close>, and an evaluation function that returns the logits
  \<open>lg\<close> and the loss \<open>one\<close> (the float \<^verbatim>\<open>1.0\<close>) at every step and leaves the state alone.
  Everything else has the default of \<^verbatim>\<open>run\<close>.
\<close>

definition scenario_args ::
  "'p Model \<Rightarrow> 'p TrainState \<Rightarrow> 'l \<Rightarrow> 'f \<Rightarrow> dataset \<Rightarrow> nat option
     \<Rightarrow> ('l, 'f) EvalCallback list \<Rightarrow> ('p, 'l, 'f) run_args" where
  "scenario_args m st lg one ds budget cbs =
     \<lparr>model = m, state = st,
      dataset_dict = [''test'' \<mapsto> ds],
      dataloader = \<lparr>lazy_batch_size = 2, lazy_drop_last = True, lazy_shuffle = False\<rparr>,
      eval_wrapper = (\<lambda>s b m'. (s, Inr (lg, [(''loss'', one)]))),
      test_split = ''test'', seed = 42, log_every = 1, do_distributed = False,
      eval_steps = budget, metric_names = [''loss''], auto_aggregate_metrics = True,
      callbacks = cbs\<rparr>"

text \<open>A callback for the scenarios: all its hooks return.\<close>

definition quiet_callback :: "nat \<Rightarrow> ('l, 'f) EvalCallback" where
  "quiet_callback i =
     \<lparr>cb_id = i, pre_eval_loop = None, pre_batch = (\<lambda>step b. None),
      post_batch = (\<lambda>step lg. None), post_eval_loop = (\<lambda>agg. None)\<rparr>"

text \<open>
  An arithmetic for the scenarios: the exact one on the reals. Floating-point arithmetic
  agrees with it wherever the operands and the exact result are representable, as for
  the small integers the scenarios use.
\<close>

definition exact_arith :: "real float_arith" where
  "exact_arith = \<lparr>float_zero = 0, float_add = (\<lambda>x y. x + y), float_div = (\<lambda>x n. x / real n)\<rparr>"

text \<open>A runtime with \<open>n\<close> devices, all local.\<close>

definition devices_env :: "nat \<Rightarrow> nat jax_env" where
  "devices_env n =
     \<lparr>jax_devices = n, jax_local_device_count = n, jax_get_PRNGkey = (\<lambda>s. s),
      jax_permutation = (\<lambda>k sz. rotate k [0..<sz])\<rparr>"

section \<open>Properties of the batch source\<close>

lemma reshape_one_row:
  "length xs = n \<Longrightarrow> reshape xs (Suc 0) n = Inr [xs]"
  by (simp add: reshape_def)

lemma call_one_group:
  assumes "dataset self = HFDataset n" and "dataset_size self = PyInt sz" and "sz \<le> n"
    and "0 < batch_size self" and "batch_size self \<le> sz"
    and "\<not> shuffle self"
  shows "FlaxDataLoader_call perm d self rng False = ([[0..<batch_size self]], None)"
proof -
  have t: "take (batch_size self) [0..<sz] = [0..<batch_size self]"
    using assms(5) by (simp add: take_upt)
  have r: "reshape [0..<batch_size self] (Suc 0) (batch_size self)
             = Inr [[0..<batch_size self]]"
    by (rule reshape_one_row) simp
  have g: "list_all (\<lambda>i. i < n) [0..<batch_size self]"
    using assms(3,5) by (simp add: list_all_iff)
  show ?thesis
    using assms(1,2,4,6) t r g by (simp add: FlaxDataLoader_call_def Let_def)
qed

lemma get_size_never_unsupported: "get_size ds \<noteq> Inl UnsupportedSizeError"
  by (cases ds) (auto split: option.splits)

text \<open>
  Claim C1. With shuffle disabled and \<open>S \<ge> B\<close>, the batches should cover
  \<^verbatim>\<open>range(0, (S // B) * B)\<close> in \<open>S // B\<close> batches. The code computes \<open>S // B\<close> and then
  overwrites it with \<open>1\<close>: on a dataset of 10 rows with batch size 2 it yields the single
  batch \<open>[0, 1]\<close>, not the indices \<open>0, \<dots>, 9\<close> in five batches; sharded or not, the
  indices it yields are never \<open>0, \<dots>, 9\<close>.
\<close>

theorem call_single_group_at_10_2:
  "map_sum id (\<lambda>g. (concat (fst g), length (fst g), snd g))
      (iterate perm d (HFDataset 10) 2 dlast False rng False) = Inr ([0, 1], 1, None)
   \<and> map_sum id (\<lambda>g. concat (fst g)) (iterate perm d (HFDataset 10) 2 dlast False rng dd)
        \<noteq> Inr [0 ..< (10 div 2) * 2]"
proof -
  have "length [0 ..< (10 div 2) * 2] \<noteq> length [0, 1 :: nat]" by simp
  then have ne: "[0, 1 :: nat] \<noteq> [0 ..< (10 div 2) * 2]" by metis
  have "length [0 ..< (10 div 2) * 2] \<noteq> length ([] :: nat list)" by simp
  then have ne0: "([] :: nat list) \<noteq> [0 ..< (10 div 2) * 2]" by metis
  show ?thesis
    using ne ne0
    by (simp add: iterate_def FlaxDataLoader_init_def FlaxDataLoader_call_def reshape_def
          shard_def)
qed

text \<open>
  Claim C8, as stated, fails: an object without a \<^verbatim>\<open>num_rows\<close> attribute makes the size
  query raise \<^verbatim>\<open>AttributeError\<close>, not a dedicated \<^verbatim>\<open>UnsupportedSizeError\<close>.
\<close>

theorem get_size_counterexample:
  "get_size (OtherObject None) = Inl AttributeError
   \<and> get_size (OtherObject None) \<noteq> Inl UnsupportedSizeError"
  by simp

text \<open>
  Claim C8, amended. The size query returns the row count the collection exposes (the
  \<^verbatim>\<open>num_rows\<close> of a \<^verbatim>\<open>datasets.Dataset\<close> or other object, the entry \<^verbatim>\<open>"num_rows"\<close> of a
  dict), and the constructed loader stores exactly that; when the collection exposes none
  it fails with \<^verbatim>\<open>KeyError\<close> (dict) or \<^verbatim>\<open>AttributeError\<close> (object), and never with
  \<^verbatim>\<open>UnsupportedSizeError\<close>.
\<close>

theorem get_size_row_count:
  "get_size (HFDataset n) = Inr (PyInt n)
   \<and> get_size (DictData (Some v)) = Inr v
   \<and> get_size (OtherObject (Some v)) = Inr v
   \<and> get_size (DictData None) = Inl KeyError
   \<and> get_size (OtherObject None) = Inl AttributeError
   \<and> get_size ds \<noteq> Inl UnsupportedSizeError
   \<and> map_sum id dataset_size (FlaxDataLoader_init ds bsz dlast shuf) = get_size ds"
  using get_size_never_unsupported [of ds]
  by (simp add: FlaxDataLoader_init_def split: sum.splits)

text \<open>
  Claim C10. For every dataset, batch size, key, shuffle setting, distributed setting
  and device count, constructing the loader with \<^verbatim>\<open>drop_last=True\<close> or with
  \<^verbatim>\<open>drop_last=False\<close> and iterating it gives the same outcome: the flag is stored and
  never read.
\<close>

theorem drop_last_ignored:
  "iterate perm d ds bsz True shuf rng dd = iterate perm d ds bsz False shuf rng dd"
  by (simp add: iterate_def FlaxDataLoader_init_def FlaxDataLoader_call_def
           split: sum.splits pyval.splits)

section \<open>Properties of the evaluation step\<close>

lemmas run_defs = run_def run_loop_def scenario_args_def FlaxDataLoader_init_def
  resolve_steps_def try_steps_def check_devices_def FlaxDataLoader_call_def reshape_def
  shard_def eval_batch_def should_log_this_step_def update_metrics_def get_default_def
  Let_def evaluated_batches_def devices_env_def quiet_callback_def

lemma resolve_steps_no_budget: "resolve_steps sz None = Inr sz"
  by (simp add: resolve_steps_def try_steps_def)


lemma call_hooks_all_return:
  "(\<forall>c \<in> set cs. hook c = None) \<Longrightarrow> call_hooks hook ev cs tr = (tr @ map ev cs, None)"
  by (induction cs arbitrary: tr) simp_all

lemma call_hooks_raises:
  "(\<forall>c' \<in> set pre. hook c' = None) \<Longrightarrow> hook c = Some e \<Longrightarrow>
     call_hooks hook ev (pre @ c # post) tr = (tr @ map ev pre @ [ev c], Some e)"
  by (induction pre arbitrary: tr) simp_all

subsection \<open>The state object\<close>

lemma eval_batch_state:
  assumes "P (cur_state ls)"
    and "\<And>s b m'. P s \<Longrightarrow> P (fst (eval_wrapper args s b m'))"
  shows "P (cur_state (fst (eval_batch fl args m steps step b ls)))"
proof -
  have "P (fst (eval_wrapper args (cur_state ls) b m))"
    using assms by blast
  then show ?thesis
    using assms(1)
    by (auto simp: eval_batch_def split: sum.splits prod.splits option.splits)
qed

lemma eval_loop_state:
  assumes "\<And>s b m'. P s \<Longrightarrow> P (fst (eval_wrapper args s b m'))"
  shows "P (cur_state ls) \<Longrightarrow> P (cur_state (fst (eval_loop fl args m steps items ls)))"
proof (induction items arbitrary: ls)
  case Nil
  then show ?case by simp
next
  case (Cons it items)
  obtain step b where it: "it = (step, b)" by (cases it)
  have "P (cur_state (fst (eval_batch fl args m steps step b ls)))"
    using Cons.prems assms by (rule eval_batch_state)
  then show ?case
    using Cons.IH [of "fst (eval_batch fl args m steps step b ls)"] it
    by (auto split: prod.splits option.splits)
qed

lemma eval_generator_state:
  assumes "\<And>s b m'. P s \<Longrightarrow> P (fst (eval_wrapper args s b m'))" and "P (cur_state ls)"
  shows "P (cur_state (fst (eval_generator fl args m steps g ls)))"
proof -
  obtain items err where g: "g = (items, err)" by (cases g)
  have "P (cur_state (fst (eval_loop fl args m steps items ls)))"
    using assms by (rule eval_loop_state)
  then show ?thesis
    using g by (auto split: prod.splits option.splits)
qed

lemma run_loop_state:
  fixes args :: "('p, 'l, 'f) run_args"
  assumes init: "P (state args)"
    and pres: "\<And>s b m'. P s \<Longrightarrow> P (fst (eval_wrapper args s b m'))"
  shows "P (final_state (run_loop env fl args loader m steps))"
proof -
  define h where "h = call_hooks pre_eval_loop (\<lambda>c. PreEvalLoop (cb_id c) :: 'l event)
                        (callbacks args) []"
  obtain tr0 r0 where h0: "h = (tr0, r0)" by (cases h)
  show ?thesis
  proof (cases r0)
    case (Some e)
    then show ?thesis using h0 init by (simp add: run_loop_def h_def)
  next
    case None
    define g where "g = enumerate_gen (islice (FlaxDataLoader_call (jax_permutation env)
                 (jax_local_device_count env) loader
                 (jax_get_PRNGkey env (seed args)) (do_distributed args)) steps)"
    define ls0 :: "('p, 'l, 'f) loop_state" where
      "ls0 = \<lparr>cur_state = state args, running_metrics = Map.empty,
                  aggregated_metrics = Map.empty, trace = tr0\<rparr>"
    obtain ls r1 where h1: "eval_generator fl args m steps g ls0 = (ls, r1)"
      by (cases "eval_generator fl args m steps g ls0")
    have "P (cur_state ls0)" using init by (simp add: ls0_def)
    with pres have "P (cur_state (fst (eval_generator fl args m steps g ls0)))"
      by (rule eval_generator_state)
    then have P_ls: "P (cur_state ls)" using h1 by simp
    have "final_state (run_loop env fl args loader m steps) = cur_state ls"
      using h0 None h1
      by (simp add: run_loop_def Let_def h_def g_def ls0_def split: option.splits prod.splits)
    then show ?thesis using P_ls by simp
  qed
qed

text \<open>
  Claim C9. \<^verbatim>\<open>run\<close> hands the state object to the evaluation function and to nothing
  else, and never writes to it: whatever property \<open>P\<close> of the state the evaluation
  function preserves still holds of the state object when \<^verbatim>\<open>run\<close> has returned or
  raised. In particular (\<open>P\<close> = "is the state given"), if the evaluation function leaves
  the state as it is, so does \<^verbatim>\<open>run\<close>.
\<close>

theorem state_passed_through:
  assumes init: "P (state args)"
    and pres: "\<forall>s b m. P s \<longrightarrow> P (fst (eval_wrapper args s b m))"
  shows "P (final_state (run env fl args))"
proof -
  have step: "\<And>s b m'. P s \<Longrightarrow> P (fst (eval_wrapper args s b m'))"
    using pres by blast
  have "\<And>loader m steps. P (final_state (run_loop env fl args loader m steps))"
    using init step by (rule run_loop_state)
  then show ?thesis
    using init
    by (simp add: run_def Let_def split: option.splits sum.splits)
qed

text \<open>
  Witness for C9: the scenario's evaluation function returns the state it was given, and
  the state comes back as it went in.
\<close>

theorem state_passed_through_witness:
  "final_state (run (devices_env 1) exact_arith
      (scenario_args \<lparr>model_params = (0::nat)\<rparr> \<lparr>params = (7::nat)\<rparr> () 1
         (HFDataset 10) None [])) = \<lparr>params = 7\<rparr>"
  using state_passed_through [of "\<lambda>s. s = \<lparr>params = (7::nat)\<rparr>"
      "scenario_args \<lparr>model_params = (0::nat)\<rparr> \<lparr>params = (7::nat)\<rparr> () 1
         (HFDataset 10) None []"
      "devices_env 1" exact_arith]
  by (simp add: scenario_args_def)

subsection \<open>The device check\<close>




subsection \<open>The scenario and the step budget\<close>

text \<open>
  Claim C2. On a dataset of 10 rows with batch size 2, shuffle off, no step budget and
  auto-aggregation of \<^verbatim>\<open>"loss"\<close>, \<^verbatim>\<open>run\<close> should execute 5 steps. It returns the aggregate
  of \<^verbatim>\<open>"loss"\<close> (\<^verbatim>\<open>(0.0 + 1.0) / 1\<close>, that is \<^verbatim>\<open>1.0\<close>), but after a single step: the loader
  yields one batch only.
\<close>

theorem scenario_one_step:
  "result (run env fl (scenario_args m st lg one (HFDataset 10) None []))
     = Inr [''loss'' \<mapsto> float_div fl (float_add fl (float_zero fl) one) 1]
   \<and> result (run env exact_arith (scenario_args m st lg 1 (HFDataset 10) None []))
     = Inr [''loss'' \<mapsto> 1]
   \<and> events (run env fl (scenario_args m st lg one (HFDataset 10) None []))
        = [EvalFn 0 [0, 1], SetPostfix 0]
   \<and> evaluated_batches (events (run env fl (scenario_args m st lg one (HFDataset 10) None [])))
        = 1"
  by (simp add: run_defs exact_arith_def)

text \<open>
  Claim C3. An unsized source without a step budget should raise
  \<^verbatim>\<open>ConfigurationError\<close>, and with a budget of 5 evaluate 5 batches. Without a budget the
  resolution of the steps never raises (the handler of \<^verbatim>\<open>TypeError\<close> is reached only from
  \<^verbatim>\<open>min\<close>, which is called only with a budget); \<^verbatim>\<open>run\<close> fails with the \<^verbatim>\<open>AttributeError\<close>
  or \<^verbatim>\<open>KeyError\<close> of the loader's constructor when the source exposes no size, and with
  the \<^verbatim>\<open>TypeError\<close> of the loader's floor division when the size is \<^verbatim>\<open>None\<close>; the latter
  also with a budget of 5, no batch being evaluated.
\<close>

theorem unsized_source_errors:
  "resolve_steps sz None = Inr sz
   \<and> result (run env fl (scenario_args m st lg one (OtherObject None) None []))
        = Inl AttributeError
   \<and> result (run env fl (scenario_args m st lg one (DictData None) None [])) = Inl KeyError
   \<and> result (run env fl (scenario_args m st lg one (DictData (Some PyNone)) None []))
        = Inl TypeError
   \<and> result (run env fl (scenario_args m st lg one (DictData (Some PyNone)) (Some 5) []))
        = Inl TypeError
   \<and> evaluated_batches
        (events (run env fl (scenario_args m st lg one (DictData (Some PyNone)) (Some 5) [])))
        = 0"
  by (simp add: run_defs)

subsection \<open>Metric aggregation\<close>

lemma auto_aggregate_other:
  "k \<notin> set names \<or> k \<notin> fst ` set ms \<Longrightarrow>
     fst (auto_aggregate fl names step ms (r, a)) k = r k
     \<and> snd (auto_aggregate fl names step ms (r, a)) k = a k"
  by (induction ms arbitrary: r a) (auto simp: Let_def)

lemma auto_aggregate_key:
  "distinct (map fst ms) \<Longrightarrow> map_of ms k = Some v \<Longrightarrow> k \<in> set names \<Longrightarrow>
     fst (auto_aggregate fl names step ms (r, a)) k
       = Some (float_add fl (get_default fl r k) v)
     \<and> snd (auto_aggregate fl names step ms (r, a)) k
         = Some (float_div fl (float_add fl (get_default fl r k) v) (step + 1))"
proof (induction ms arbitrary: r a)
  case Nil
  then show ?case by simp
next
  case (Cons item ms)
  obtain key val where item: "item = (key, val)" by (cases item)
  show ?case
  proof (cases "key = k")
    case True
    then have v: "val = v" using Cons.prems(2) item by simp
    have notin: "k \<notin> fst ` set ms" using Cons.prems(1) item True by auto
    show ?thesis
      using auto_aggregate_other [of k names ms fl step
          "r(k \<mapsto> float_add fl (get_default fl r k) v)"
          "a(k \<mapsto> float_div fl
                 (get_default fl (r(k \<mapsto> float_add fl (get_default fl r k) v)) k) (step + 1))"]
        notin item True v Cons.prems(3)
      by (simp add: Let_def get_default_def)
  next
    case False
    then have m: "map_of ms k = Some v" using Cons.prems(2) item by simp
    have d: "distinct (map fst ms)" using Cons.prems(1) by simp
    show ?thesis
      using Cons.IH [OF d m Cons.prems(3)] item False
      by (simp add: Let_def get_default_def)
  qed
qed

lemma fold_aggregate_other:
  "k \<notin> set names \<Longrightarrow>
     snd (fold (\<lambda>(step, ms). update_metrics fl True names step ms) (List.enumerate n mss) (r, a)) k
       = a k"
proof (induction mss arbitrary: n r a)
  case Nil
  then show ?case by simp
next
  case (Cons ms mss)
  obtain r' a' where ra: "auto_aggregate fl names n ms (r, a) = (r', a')"
    by (cases "auto_aggregate fl names n ms (r, a)")
  have "a' k = a k"
    using auto_aggregate_other [of k names ms fl n r a] Cons.prems ra by simp
  then show ?case
    using Cons.IH [OF Cons.prems, of "Suc n" r' a'] ra
    by (simp add: update_metrics_def)
qed

lemma fold_aggregate_key:
  assumes "k \<in> set names"
  shows "mss \<noteq> [] \<Longrightarrow> \<forall>ms \<in> set mss. distinct (map fst ms) \<and> k \<in> fst ` set ms \<Longrightarrow>
     fst (fold (\<lambda>(step, ms). update_metrics fl True names step ms) (List.enumerate n mss) (r, a)) k
       = Some (foldl (float_add fl) (get_default fl r k) (map (\<lambda>ms. the (map_of ms k)) mss))
     \<and> snd (fold (\<lambda>(step, ms). update_metrics fl True names step ms) (List.enumerate n mss) (r, a)) k
       = Some (float_div fl
                 (foldl (float_add fl) (get_default fl r k) (map (\<lambda>ms. the (map_of ms k)) mss))
                 (n + length mss))"
proof (induction mss arbitrary: n r a)
  case Nil
  then show ?case by simp
next
  case (Cons ms mss)
  obtain r' a' where ra: "auto_aggregate fl names n ms (r, a) = (r', a')"
    by (cases "auto_aggregate fl names n ms (r, a)")
  have d: "distinct (map fst ms)" and kin: "k \<in> fst ` set ms"
    using Cons.prems(2) by simp_all
  then obtain v where v: "map_of ms k = Some v"
    by (metis (no_types, opaque_lifting) domD dom_map_of_conv_image_fst)
  have first: "r' k = Some (float_add fl (get_default fl r k) v)"
      "a' k = Some (float_div fl (float_add fl (get_default fl r k) v) (n + 1))"
    using auto_aggregate_key [OF d v assms, of fl n r a] ra by simp_all
  show ?case
  proof (cases "mss = []")
    case True
    then show ?thesis using first ra v by (simp add: update_metrics_def)
  next
    case False
    have rest: "\<forall>ms \<in> set mss. distinct (map fst ms) \<and> k \<in> fst ` set ms"
      using Cons.prems(2) by simp
    have g: "get_default fl r' k = float_add fl (get_default fl r k) v"
      using first(1) by (simp add: get_default_def)
    show ?thesis
      using Cons.IH [OF False rest, of "Suc n" r' a'] ra v g
      by (simp add: update_metrics_def)
  qed
qed

lemma eval_batch_metrics:
  assumes ok: "snd (eval_batch fl args m steps step b ls) = None"
    and fn: "eval_wrapper args (cur_state ls) b m = (s', Inr (lg, ms))"
  shows "(running_metrics (fst (eval_batch fl args m steps step b ls)),
          aggregated_metrics (fst (eval_batch fl args m steps step b ls)))
         = update_metrics fl (auto_aggregate_metrics args) (metric_names args) step ms
             (running_metrics ls, aggregated_metrics ls)"
  using ok fn
  by (auto simp: eval_batch_def split: sum.splits prod.splits option.splits if_splits)

lemma eval_loop_metrics:
  assumes fn: "\<forall>s b. \<exists>s' lg. eval_wrapper args s b m = (s', Inr (lg, mf b))"
  shows "snd (eval_loop fl args m steps (List.enumerate n bs) ls) = None \<Longrightarrow>
     (running_metrics (fst (eval_loop fl args m steps (List.enumerate n bs) ls)),
      aggregated_metrics (fst (eval_loop fl args m steps (List.enumerate n bs) ls)))
     = fold (\<lambda>(step, ms). update_metrics fl (auto_aggregate_metrics args) (metric_names args)
                             step ms)
         (List.enumerate n (map mf bs)) (running_metrics ls, aggregated_metrics ls)"
proof (induction bs arbitrary: n ls)
  case Nil
  then show ?case by simp
next
  case (Cons b bs)
  obtain ls1 r1 where eb: "eval_batch fl args m steps n b ls = (ls1, r1)"
    by (cases "eval_batch fl args m steps n b ls")
  have r1: "r1 = None"
    using Cons.prems eb by (cases r1) simp_all
  obtain s' lg where w: "eval_wrapper args (cur_state ls) b m = (s', Inr (lg, mf b))"
    using fn by blast
  have first: "(running_metrics ls1, aggregated_metrics ls1)
         = update_metrics fl (auto_aggregate_metrics args) (metric_names args) n (mf b)
             (running_metrics ls, aggregated_metrics ls)"
    using eval_batch_metrics [of fl args m steps n b ls s' lg "mf b"] eb r1 w by simp
  have rest: "snd (eval_loop fl args m steps (List.enumerate (Suc n) bs) ls1) = None"
    using Cons.prems eb r1 by simp
  show ?case
    using Cons.IH [OF rest] eb r1 first by simp
qed

text \<open>
  Claim C5. In auto-aggregate mode, let the loop run over the batches \<open>bs\<close> (\<open>n > 0\<close> of
  them, numbered from 0) from empty dicts and return; let the evaluation function report,
  for the batch \<open>b\<close>, the metrics \<open>mf b\<close> (a dict: distinct keys). For a configured name
  \<open>k\<close> reported at every step the aggregate is the running mean as the floating-point
  arithmetic computes it: the values added one by one, in step order, to \<^verbatim>\<open>0.0\<close>, and
  the sum divided by \<open>n\<close>. A name \<open>k'\<close> outside the configured set does not appear in
  the aggregate. This holds for every arithmetic \<open>fl\<close>, whatever it rounds.
\<close>

theorem running_mean:
  assumes auto: "auto_aggregate_metrics args"
    and fn: "\<forall>s b. \<exists>s' lg. eval_wrapper args s b m = (s', Inr (lg, mf b))"
    and returns: "snd (eval_loop fl args m steps (List.enumerate 0 bs) ls) = None"
    and fresh: "running_metrics ls = Map.empty" "aggregated_metrics ls = Map.empty"
    and nonempty: "bs \<noteq> []"
    and reported: "\<forall>b \<in> set bs. distinct (map fst (mf b)) \<and> k \<in> fst ` set (mf b)"
    and configured: "k \<in> set (metric_names args)"
    and outside: "k' \<notin> set (metric_names args)"
  shows "aggregated_metrics (fst (eval_loop fl args m steps (List.enumerate 0 bs) ls)) k
           = Some (float_div fl
                     (foldl (float_add fl) (float_zero fl)
                        (map (\<lambda>b. the (map_of (mf b) k)) bs))
                     (length bs))
         \<and> aggregated_metrics (fst (eval_loop fl args m steps (List.enumerate 0 bs) ls)) k'
           = None"
proof -
  let ?f = "fold (\<lambda>(step, ms). update_metrics fl True (metric_names args) step ms)
              (List.enumerate 0 (map mf bs)) (Map.empty, Map.empty)"
  have link: "aggregated_metrics (fst (eval_loop fl args m steps (List.enumerate 0 bs) ls))
                = snd ?f"
  proof -
    have "auto_aggregate_metrics args = True" using auto by simp
    then have "(running_metrics (fst (eval_loop fl args m steps (List.enumerate 0 bs) ls)),
           aggregated_metrics (fst (eval_loop fl args m steps (List.enumerate 0 bs) ls))) = ?f"
      using eval_loop_metrics [OF fn returns] fresh by simp
    then have "snd (running_metrics (fst (eval_loop fl args m steps (List.enumerate 0 bs) ls)),
           aggregated_metrics (fst (eval_loop fl args m steps (List.enumerate 0 bs) ls)))
             = snd ?f"
      by (rule arg_cong)
    then show ?thesis by simp
  qed
  have ne: "map mf bs \<noteq> []" using nonempty by simp
  have rep: "\<forall>ms \<in> set (map mf bs). distinct (map fst ms) \<and> k \<in> fst ` set ms"
    using reported by simp
  have "snd ?f k = Some (float_div fl
                     (foldl (float_add fl) (float_zero fl)
                        (map (\<lambda>ms. the (map_of ms k)) (map mf bs)))
                     (length (map mf bs)))"
    using fold_aggregate_key [OF configured ne rep, of fl 0 Map.empty Map.empty]
    by (simp add: get_default_def)
  moreover have "map (\<lambda>ms. the (map_of ms k)) (map mf bs)
                   = map (\<lambda>b. the (map_of (mf b) k)) bs"
    by (simp add: comp_def)
  moreover have "snd ?f k' = None"
    using fold_aggregate_other [OF outside, of fl 0 "map mf bs" Map.empty Map.empty] by simp
  ultimately show ?thesis using link by (simp add: comp_def)
qed

text \<open>
  Witness for C5: three steps reporting 2.0, 4.0, 6.0 for \<^verbatim>\<open>"loss"\<close>. The aggregate is
  \<^verbatim>\<open>(((0.0 + 2.0) + 4.0) + 6.0) / 3\<close>, which is 4.0 (every operand and result here is a
  small integer, on which floating-point arithmetic is exact), and \<^verbatim>\<open>"accuracy"\<close>,
  reported but not configured, is left out.
\<close>

theorem running_mean_witness:
  "aggregated_metrics (fst (eval_loop exact_arith
      ((scenario_args \<lparr>model_params = ()\<rparr> \<lparr>params = ()\<rparr> () 1 (HFDataset 10) None [])
         \<lparr>eval_wrapper := (\<lambda>s b m'. (s, Inr ((), [(''loss'', real (sum_list b)),
                                                     (''accuracy'', 1)])))\<rparr>)
      \<lparr>model_params = ()\<rparr> (PyInt 3) (List.enumerate 0 [[2], [4], [6]])
      \<lparr>cur_state = \<lparr>params = ()\<rparr>, running_metrics = Map.empty,
       aggregated_metrics = Map.empty, trace = []\<rparr>)) ''loss'' = Some 4
   \<and> aggregated_metrics (fst (eval_loop exact_arith
      ((scenario_args \<lparr>model_params = ()\<rparr> \<lparr>params = ()\<rparr> () 1 (HFDataset 10) None [])
         \<lparr>eval_wrapper := (\<lambda>s b m'. (s, Inr ((), [(''loss'', real (sum_list b)),
                                                     (''accuracy'', 1)])))\<rparr>)
      \<lparr>model_params = ()\<rparr> (PyInt 3) (List.enumerate 0 [[2], [4], [6]])
      \<lparr>cur_state = \<lparr>params = ()\<rparr>, running_metrics = Map.empty,
       aggregated_metrics = Map.empty, trace = []\<rparr>)) ''accuracy'' = None"
proof -
  define args :: "(unit, unit, real) run_args" where
    "args = (scenario_args \<lparr>model_params = ()\<rparr> \<lparr>params = ()\<rparr> () 1 (HFDataset 10) None [])
         \<lparr>eval_wrapper := (\<lambda>s b m'. (s, Inr ((), [(''loss'', real (sum_list b)),
                                                     (''accuracy'', 1)])))\<rparr>"
  define ls :: "(unit, unit, real) loop_state" where
    "ls = \<lparr>cur_state = \<lparr>params = ()\<rparr>, running_metrics = Map.empty,
       aggregated_metrics = Map.empty, trace = []\<rparr>"
  define mf :: "batch \<Rightarrow> real metrics" where
    "mf = (\<lambda>b. [(''loss'', real (sum_list b)), (''accuracy'', 1)])"
  define bs :: "batch list" where "bs = [[2], [4], [6]]"
  have h1: "auto_aggregate_metrics args"
    by (simp add: args_def scenario_args_def)
  have h2: "\<forall>s b. \<exists>s' lg. eval_wrapper args s b \<lparr>model_params = ()\<rparr> = (s', Inr (lg, mf b))"
    by (simp add: args_def scenario_args_def mf_def)
  have h3: "snd (eval_loop exact_arith args \<lparr>model_params = ()\<rparr> (PyInt 3)
                   (List.enumerate 0 bs) ls) = None"
    by (simp add: args_def ls_def bs_def scenario_args_def eval_batch_def
          should_log_this_step_def update_metrics_def get_default_def Let_def)
  have h4: "running_metrics ls = Map.empty" "aggregated_metrics ls = Map.empty"
    by (simp_all add: ls_def)
  have h5: "bs \<noteq> []" by (simp add: bs_def)
  have h6: "\<forall>b \<in> set bs. distinct (map fst (mf b)) \<and> ''loss'' \<in> fst ` set (mf b)"
    by (simp add: bs_def mf_def)
  have h7: "''loss'' \<in> set (metric_names args)" "''accuracy'' \<notin> set (metric_names args)"
    by (simp_all add: args_def scenario_args_def)
  have v: "float_div exact_arith
             (foldl (float_add exact_arith) (float_zero exact_arith)
                (map (\<lambda>b. the (map_of (mf b) ''loss'')) bs)) (length bs) = 4"
    by (simp add: bs_def mf_def exact_arith_def)
  show ?thesis
    using running_mean [OF h1 h2 h3 h4 h5 h6 h7] v
    unfolding args_def ls_def bs_def
    by simp
qed

subsection \<open>Callbacks\<close>

lemma eval_batch_returns:
  assumes log: "should_log_this_step step (log_every args) steps = Inr lg"
    and local: "\<not> do_distributed args"
    and pre: "\<forall>c \<in> set (callbacks args). pre_batch c step b = None"
    and ev: "eval_wrapper args (cur_state ls) b m = (st', Inr (logits, ms))"
    and post: "\<forall>c \<in> set (callbacks args). post_batch c step logits = None"
  shows "snd (eval_batch fl args m steps step b ls) = None"
    and "trace (fst (eval_batch fl args m steps step b ls)) =
           trace ls @ map (\<lambda>c. PreBatch (cb_id c) step b) (callbacks args)
             @ [EvalFn step b]
             @ map (\<lambda>c. PostBatch (cb_id c) step logits) (callbacks args)
             @ (if lg then [SetPostfix step] else [])"
proof -
  have h1: "call_hooks (\<lambda>c. pre_batch c step b) (\<lambda>c. PreBatch (cb_id c) step b)
              (callbacks args) (trace ls)
            = (trace ls @ map (\<lambda>c. PreBatch (cb_id c) step b) (callbacks args), None)"
    using pre by (rule call_hooks_all_return)
  have h2: "\<And>tr. call_hooks (\<lambda>c. post_batch c step logits)
              (\<lambda>c. PostBatch (cb_id c) step logits) (callbacks args) tr
            = (tr @ map (\<lambda>c. PostBatch (cb_id c) step logits) (callbacks args), None)"
    using post by (rule call_hooks_all_return)
  show "snd (eval_batch fl args m steps step b ls) = None"
    by (simp add: eval_batch_def log local h1 ev h2 split: prod.splits)
  show "trace (fst (eval_batch fl args m steps step b ls)) =
           trace ls @ map (\<lambda>c. PreBatch (cb_id c) step b) (callbacks args)
             @ [EvalFn step b]
             @ map (\<lambda>c. PostBatch (cb_id c) step logits) (callbacks args)
             @ (if lg then [SetPostfix step] else [])"
    by (simp add: eval_batch_def log local h1 ev h2 split: prod.splits)
qed

lemma eval_batch_pre_raises:
  assumes log: "should_log_this_step step (log_every args) steps = Inr lg"
    and cbs: "callbacks args = pre @ c # post"
    and pre: "\<forall>c' \<in> set pre. pre_batch c' step b = None"
    and raises: "pre_batch c step b = Some e"
  shows "eval_batch fl args m steps step b ls =
           (ls\<lparr>trace := trace ls @ map (\<lambda>c. PreBatch (cb_id c) step b) pre
                    @ [PreBatch (cb_id c) step b]\<rparr>, Some e)"
proof -
  have "call_hooks (\<lambda>c. pre_batch c step b) (\<lambda>c. PreBatch (cb_id c) step b)
              (pre @ c # post) (trace ls)
            = (trace ls @ map (\<lambda>c. PreBatch (cb_id c) step b) pre
                 @ [PreBatch (cb_id c) step b], Some e)"
    using pre raises by (rule call_hooks_raises)
  then show ?thesis
    by (simp add: eval_batch_def log cbs)
qed

lemma eval_batch_distributed_raises:
  assumes log: "should_log_this_step step (log_every args) steps = Inr lg"
    and dist: "do_distributed args"
    and pre: "\<forall>c \<in> set (callbacks args). pre_batch c step b = None"
    and ev: "eval_wrapper args (cur_state ls) b m = (st', Inr (logits, ms))"
  shows "eval_batch fl args m steps step b ls =
           (ls\<lparr>cur_state := st',
               trace := trace ls @ map (\<lambda>c. PreBatch (cb_id c) step b) (callbacks args)
                    @ [EvalFn step b]\<rparr>, Some NameError)"
proof -
  have h1: "call_hooks (\<lambda>c. pre_batch c step b) (\<lambda>c. PreBatch (cb_id c) step b)
              (callbacks args) (trace ls)
            = (trace ls @ map (\<lambda>c. PreBatch (cb_id c) step b) (callbacks args), None)"
    using pre by (rule call_hooks_all_return)
  show ?thesis
    by (simp add: eval_batch_def log dist h1 ev)
qed

lemma eval_loop_aborts:
  "snd (eval_batch fl args m steps step b ls) = Some e \<Longrightarrow>
     eval_loop fl args m steps ((step, b) # rest) ls
       = (fst (eval_batch fl args m steps step b ls), Some e)"
  by (cases "eval_batch fl args m steps step b ls") simp

text \<open>
  Claim C6. The hooks should be called around the evaluation of every batch: \<^verbatim>\<open>pre_batch\<close>
  on every callback in registration order, the evaluation function, then \<^verbatim>\<open>post_batch\<close>
  on every callback in registration order. The non-distributed branch of the loop does
  so. The distributed branch does not: after the evaluation function it calls
  \<^verbatim>\<open>jax.lax.pmean\<close> outside of the \<^verbatim>\<open>pmap\<close>, which raises \<^verbatim>\<open>NameError\<close>, and \<^verbatim>\<open>post_batch\<close>
  is never called. On two devices, with two callbacks whose hooks all return, on the
  dataset of 10 rows with batch size 2: the distributed run ends with \<^verbatim>\<open>NameError\<close> after
  the evaluation of the first batch; the same run without the distributed flag calls
  every hook in order and returns.
\<close>

theorem distributed_step_skips_post_batch:
  "result (run (devices_env 2) fl
      ((scenario_args m st lg one (HFDataset 10) None [quiet_callback 0, quiet_callback 1])
         \<lparr>do_distributed := True\<rparr>)) = Inl NameError
   \<and> events (run (devices_env 2) fl
      ((scenario_args m st lg one (HFDataset 10) None [quiet_callback 0, quiet_callback 1])
         \<lparr>do_distributed := True\<rparr>))
       = [PreEvalLoop 0, PreEvalLoop 1, PreBatch 0 0 [0, 1], PreBatch 1 0 [0, 1],
          EvalFn 0 [0, 1]]
   \<and> events (run (devices_env 2) fl
      (scenario_args m st lg one (HFDataset 10) None [quiet_callback 0, quiet_callback 1]))
       = [PreEvalLoop 0, PreEvalLoop 1, PreBatch 0 0 [0, 1], PreBatch 1 0 [0, 1],
          EvalFn 0 [0, 1], PostBatch 0 0 lg, PostBatch 1 0 lg, SetPostfix 0,
          PostEvalLoop 0, PostEvalLoop 1]"
  by (simp add: run_defs)

end
